theory Spec2Isabelle
  imports Main "HOL-Library.Word" "HOL-Library.Sublist"
begin

unbundle bit_operations_syntax

section \<open>Data model\<close>

text \<open>
  \<^verbatim>\<open>DWORD\<close> is the 32-bit unsigned integer of the Windows API.  Wide strings
  (\<^verbatim>\<open>std::wstring\<close>, \<^verbatim>\<open>wchar_t*\<close>) are character lists; a C string ends at its
  first NUL character.
\<close>

type_synonym DWORD = "32 word"
type_synonym wstring = string

definition NUL :: char where
  "NUL = CHR 0x00"

definition c_str :: "wstring \<Rightarrow> wstring" where
  "c_str s = takeWhile (\<lambda>c. c \<noteq> NUL) s"

subsection \<open>The action callback\<close>

text \<open>
  \<^verbatim>\<open>ActionFunction\<close> is a \<^verbatim>\<open>std::function<void(const std::wstring&, DWORD)>\<close>.
  It is either empty (\<open>None\<close>) or holds a target.  A target is run for its effect;
  the model keeps of it only whether it returns normally (\<open>None\<close>) or throws.
  Calling an empty \<^verbatim>\<open>std::function\<close> throws \<^verbatim>\<open>std::bad_function_call\<close>.
\<close>

datatype failure = bad_function_call | action_exception

type_synonym ActionFunction = "(wstring \<Rightarrow> DWORD \<Rightarrow> failure option) option"

record Context =
  notify_mask :: DWORD
  action_function :: ActionFunction

text \<open>
  What one run of the notification callback did: nothing (\<open>Dropped\<close>), ran the
  target on the given arguments (\<open>Invoked\<close>, with what the target threw), or applied
  the call operator to an empty function object (\<open>Called_empty\<close>).
\<close>

datatype outcome =
    Dropped
  | Invoked wstring DWORD "failure option"
  | Called_empty

fun escaped :: "outcome \<Rightarrow> failure option" where
  "escaped Dropped = None"
| "escaped (Invoked n f r) = r"
| "escaped Called_empty = Some bad_function_call"

fun call_operator :: "ActionFunction \<Rightarrow> wstring \<Rightarrow> DWORD \<Rightarrow> outcome" where
  "call_operator None n f = Called_empty"
| "call_operator (Some target) n f = Invoked n f (target n f)"

subsection \<open>The notification callback\<close>

text \<open>
  The callback receives an untyped pointer.  It reads the \<^verbatim>\<open>SERVICE_NOTIFY\<close> the
  pointer refers to, and through that structure the \<^verbatim>\<open>Context\<close> and the service
  name.  The record below is what these pointers refer to when the callback runs:
  \<open>None\<close> stands for a null pointer.  The name pointer refers to a NUL-terminated
  string, as it does in every buffer that \<^verbatim>\<open>Start\<close> registers.
\<close>

record SERVICE_NOTIFY_pointee =
  pContext_pointee :: "Context option"
  pszServiceNames_pointee :: wstring

text \<open>
  \<^verbatim>\<open>
  if (const auto notify_buffer{static_cast<PSERVICE_NOTIFY>(pCallbackContext)}) {
    if (const auto context{static_cast<Context *>(notify_buffer->pContext)}) {
      if (context->action_function &&
              (dwNotify | context->notify_mask) == context->notify_mask ||
          dwNotify == 0) {
        context->action_function(notify_buffer->pszServiceNames, dwNotify);
  \<close>
  In C++ \<^verbatim>\<open>&&\<close> binds tighter than \<^verbatim>\<open>||\<close>.
\<close>

definition NotifyCallbackFunc :: "DWORD \<Rightarrow> SERVICE_NOTIFY_pointee option \<Rightarrow> outcome" where
  "NotifyCallbackFunc dwNotify pCallbackContext =
     (case pCallbackContext of
        None \<Rightarrow> Dropped
      | Some notify_buffer \<Rightarrow>
          (case pContext_pointee notify_buffer of
             None \<Rightarrow> Dropped
           | Some context \<Rightarrow>
               if (action_function context \<noteq> None \<and>
                     (dwNotify OR notify_mask context) = notify_mask context) \<or>
                  dwNotify = 0
               then call_operator (action_function context)
                      (pszServiceNames_pointee notify_buffer) dwNotify
               else Dropped))"

text \<open>
  The dispatch predicate as the specification words it: the action callback is
  present, and the raw flags are zero or a bitwise subset of the filter mask.
\<close>

definition dispatch_predicate_spec :: "ActionFunction \<Rightarrow> DWORD \<Rightarrow> DWORD \<Rightarrow> bool" where
  "dispatch_predicate_spec action F M = (action \<noteq> None \<and> (F = 0 \<or> (F OR M) = M))"

text \<open>The callback reached its call expression.\<close>

fun call_attempted :: "outcome \<Rightarrow> bool" where
  "call_attempted Dropped = False"
| "call_attempted (Invoked n f r) = True"
| "call_attempted Called_empty = True"

section \<open>The operating system\<close>

text \<open>
  Handles are opaque; a null handle or pointer is \<open>None\<close>.  The registry hands the
  system pointers into its own storage: the notification buffer and the name buffer
  of the map entry of a key (\<^verbatim>\<open>std::unordered_map\<close> never moves its nodes), and
  its \<^verbatim>\<open>context_\<close> member.
\<close>

type_synonym SC_HANDLE = nat
type_synonym HINSTANCE = nat
type_synonym PSC_NOTIFICATION_REGISTRATION = nat

datatype SC_EVENT_TYPE =
    SC_EVENT_DATABASE_CHANGE
  | SC_EVENT_PROPERTY_CHANGE
  | SC_EVENT_STATUS_CHANGE

datatype address =
    Addr_notify_buffer wstring
  | Addr_service_name wstring
  | Addr_context

text \<open>The calls that cross into the operating system, in the order they are made.\<close>

datatype os_call =
    Call_OpenSCManager
  | Call_OpenService SC_HANDLE wstring
  | Call_CloseServiceHandle SC_HANDLE
  | Call_LoadLibrary wstring
  | Call_GetLastError
  | Call_GetProcAddress HINSTANCE string
  | Call_FreeLibrary HINSTANCE
  | Call_Subscribe SC_HANDLE SC_EVENT_TYPE address
  | Call_Unsubscribe PSC_NOTIFICATION_REGISTRATION

text \<open>
  The system is a parameter of the model.  Each answer may depend on every call made
  so far, so the same request can succeed once and fail later.
  \<open>SubscribeServiceChangeNotifications\<close> yields its status and what it leaves in
  \<^verbatim>\<open>*pSubscription\<close>.  \<open>MAX_PATH\<close> and \<open>ERROR_SUCCESS\<close> are the constants of
  \<^verbatim>\<open>Windows.h\<close>, which the repository does not contain.  \<open>bucket_position\<close> is
  the hash table of the C++ library: for a new key and the keys already in the map,
  in iteration order, the place in that order at which the new entry is linked.
\<close>

record os =
  OpenSCManager :: "os_call list \<Rightarrow> SC_HANDLE option"
  OpenService :: "os_call list \<Rightarrow> SC_HANDLE \<Rightarrow> wstring \<Rightarrow> SC_HANDLE option"
  LoadLibrary :: "os_call list \<Rightarrow> wstring \<Rightarrow> HINSTANCE option"
  GetLastError :: "os_call list \<Rightarrow> DWORD"
  GetProcAddress :: "os_call list \<Rightarrow> HINSTANCE \<Rightarrow> string \<Rightarrow> bool"
  SubscribeServiceChangeNotifications ::
    "os_call list \<Rightarrow> SC_HANDLE \<Rightarrow> SC_EVENT_TYPE \<Rightarrow> address \<Rightarrow>
       DWORD \<times> PSC_NOTIFICATION_REGISTRATION option"
  MAX_PATH :: nat
  ERROR_SUCCESS :: DWORD
  bucket_position :: "wstring \<Rightarrow> wstring list \<Rightarrow> nat"

section \<open>The subscription registry\<close>

text \<open>
  Of \<^verbatim>\<open>SERVICE_NOTIFY\<close> the code writes two fields after clearing the structure;
  the others stay zero and are never read.
\<close>

record SERVICE_NOTIFY =
  pContext :: "address option"
  pszServiceNames :: "address option"

record ServiceData =
  service_name :: wstring
  notify_buffer :: SERVICE_NOTIFY
  registration :: "PSC_NOTIFICATION_REGISTRATION option"
  system_error_code :: DWORD

text \<open>
  The member \<^verbatim>\<open>service_data_map_\<close> is an association list: \<^verbatim>\<open>Stop\<close> walks the
  map, and the list order is the iteration order.  C++ leaves that order to the hash
  table, so the place of a new entry is a parameter (\<open>bucket_position\<close>).  The
  results on \<^verbatim>\<open>Stop\<close> hold for every list, whatever its order; the results on
  \<^verbatim>\<open>Start\<close> are about lookups by key and about the calls made.  The fields \<open>service_data_map\<close> and \<open>context_field\<close> are the members
  \<^verbatim>\<open>service_data_map_\<close> and \<^verbatim>\<open>context_\<close>.
\<close>

type_synonym registry = "(wstring \<times> ServiceData) list"

record notifier =
  service_data_map :: registry
  context_field :: Context

text \<open>The registry object together with the calls made to the system so far.\<close>

record world =
  obj :: notifier
  trace :: "os_call list"

definition default_ServiceData :: "os \<Rightarrow> ServiceData" where
  "default_ServiceData os =
     \<lparr>service_name = replicate (MAX_PATH os + 1) NUL,
      notify_buffer = \<lparr>pContext = None, pszServiceNames = None\<rparr>,
      registration = None,
      system_error_code = ERROR_SUCCESS os\<rparr>"

text \<open>
  \<^verbatim>\<open>service_data_map_[key]\<close> inserts a default entry when the key is absent, at
  the place the hash table gives it (beyond the last entry: at the end);
  \<open>modify\<close> is a write through the reference it returns.
\<close>

definition subscript :: "os \<Rightarrow> wstring \<Rightarrow> registry \<Rightarrow> registry" where
  "subscript os key m =
     (case map_of m key of
        None \<Rightarrow>
          take (bucket_position os key (map fst m)) m @
          (key, default_ServiceData os) # drop (bucket_position os key (map fst m)) m
      | Some d \<Rightarrow> m)"

definition modify :: "wstring \<Rightarrow> (ServiceData \<Rightarrow> ServiceData) \<Rightarrow> registry \<Rightarrow> registry" where
  "modify key f m = map (\<lambda>(k, d). if k = key then (k, f d) else (k, d)) m"

subsection \<open>The library wrappers\<close>

text \<open>
  \<^verbatim>\<open>ScopedDllHandle\<close> loads the library; the handle it returns frees the library
  when it goes out of scope, if the load succeeded.
\<close>

definition ScopedDllHandle :: "os \<Rightarrow> wstring \<Rightarrow> os_call list \<Rightarrow> HINSTANCE option \<times> os_call list" where
  "ScopedDllHandle os dll_name h = (LoadLibrary os h dll_name, h @ [Call_LoadLibrary dll_name])"

text \<open>
  \<^verbatim>\<open>
  DWORD return_value{0};
  *pSubscription = nullptr;
  if (const auto dll{ScopedDllHandle(L"SecHost.dll")}) {
    if (const auto address = std::bit_cast<FunctionPrototype>(
            GetProcAddress(dll.get(), "SubscribeServiceChangeNotifications"))) {
      return_value = address(hService, eEventType, pCallback, pCallbackContext,
                             pSubscription);
    }
  } else {
    return_value = GetLastError();
  }
  return return_value;
  \<close>
  The result is the return value, the final \<^verbatim>\<open>*pSubscription\<close> and the extended
  trace.
\<close>

definition SubscribeServiceChangeNotificationsWrapper ::
  "os \<Rightarrow> SC_HANDLE \<Rightarrow> SC_EVENT_TYPE \<Rightarrow> address \<Rightarrow> os_call list \<Rightarrow>
     DWORD \<times> PSC_NOTIFICATION_REGISTRATION option \<times> os_call list" where
  "SubscribeServiceChangeNotificationsWrapper os hService eEventType pCallbackContext h =
     (case ScopedDllHandle os ''SecHost.dll'' h of
        (None, h1) \<Rightarrow> (GetLastError os h1, None, h1 @ [Call_GetLastError])
      | (Some dll, h1) \<Rightarrow>
          (let h2 = h1 @ [Call_GetProcAddress dll ''SubscribeServiceChangeNotifications'']
           in if GetProcAddress os h1 dll ''SubscribeServiceChangeNotifications''
              then (case SubscribeServiceChangeNotifications os h2 hService eEventType
                           pCallbackContext of
                      (return_value, pSubscription) \<Rightarrow>
                        (return_value, pSubscription,
                         h2 @ [Call_Subscribe hService eEventType pCallbackContext,
                               Call_FreeLibrary dll]))
              else (0, None, h2 @ [Call_FreeLibrary dll])))"

definition UnsubscribeServiceChangeNotificationsWrapper ::
  "os \<Rightarrow> PSC_NOTIFICATION_REGISTRATION \<Rightarrow> os_call list \<Rightarrow> os_call list" where
  "UnsubscribeServiceChangeNotificationsWrapper os pSubscription h =
     (case ScopedDllHandle os ''SecHost.dll'' h of
        (None, h1) \<Rightarrow> h1
      | (Some dll, h1) \<Rightarrow>
          (let h2 = h1 @ [Call_GetProcAddress dll ''UnsubscribeServiceChangeNotifications'']
           in if GetProcAddress os h1 dll ''UnsubscribeServiceChangeNotifications''
              then h2 @ [Call_Unsubscribe pSubscription, Call_FreeLibrary dll]
              else h2 @ [Call_FreeLibrary dll]))"

subsection \<open>Start\<close>

text \<open>
  \<^verbatim>\<open>service_name.copy(buffer, service_name.length())\<close> writes every character of
  the name into the entry's \<^verbatim>\<open>wchar_t[MAX_PATH + 1]\<close> and appends no terminator.
  A longer name writes past the array: the behaviour is undefined, and the model
  stops with a fault.
\<close>

datatype fault = Buffer_overrun

text \<open>
  The body of the loop of \<^verbatim>\<open>Start\<close> for one name.  \<^verbatim>\<open>OpenService\<close> receives
  \<^verbatim>\<open>service_name.c_str()\<close>; the service handle is closed when its scope ends.
\<close>

definition Start_service :: "os \<Rightarrow> SC_HANDLE \<Rightarrow> wstring \<Rightarrow> world \<Rightarrow> fault + world" where
  "Start_service os scm name w =
     (let h1 = trace w @ [Call_OpenService scm (c_str name)]
      in case OpenService os (trace w) scm (c_str name) of
           None \<Rightarrow> Inr (w\<lparr>trace := h1\<rparr>)
         | Some service \<Rightarrow>
             if MAX_PATH os + 1 < length name then Inl Buffer_overrun
             else
               (let m1 = subscript os name (service_data_map (obj w));
                    m2 = modify name
                           (\<lambda>d. d\<lparr>service_name := name @ drop (length name) (service_name d)\<rparr>) m1;
                    m3 = modify name
                           (\<lambda>d. d\<lparr>notify_buffer :=
                                   \<lparr>pContext = Some Addr_context,
                                    pszServiceNames = Some (Addr_service_name name)\<rparr>\<rparr>) m2
                in case SubscribeServiceChangeNotificationsWrapper os service
                          SC_EVENT_STATUS_CHANGE (Addr_notify_buffer name) h1 of
                     (return_value, pSubscription, h2) \<Rightarrow>
                       Inr \<lparr>obj = (obj w)\<lparr>service_data_map :=
                                    modify name
                                      (\<lambda>d. d\<lparr>registration := pSubscription,
                                              system_error_code := return_value\<rparr>) m3\<rparr>,
                            trace = h2 @ [Call_CloseServiceHandle service]\<rparr>))"

fun Start_loop :: "os \<Rightarrow> SC_HANDLE \<Rightarrow> wstring list \<Rightarrow> world \<Rightarrow> fault + world" where
  "Start_loop os scm [] w = Inr w"
| "Start_loop os scm (name # rest) w =
     (case Start_service os scm name w of
        Inl e \<Rightarrow> Inl e
      | Inr w' \<Rightarrow> Start_loop os scm rest w')"

definition Start :: "os \<Rightarrow> wstring list \<Rightarrow> DWORD \<Rightarrow> ActionFunction \<Rightarrow> world \<Rightarrow> fault + world" where
  "Start os service_list mask_arg action w =
     (let w1 = \<lparr>obj = (obj w)\<lparr>context_field := \<lparr>notify_mask = mask_arg, action_function = action\<rparr>\<rparr>,
                trace = trace w @ [Call_OpenSCManager]\<rparr>
      in case OpenSCManager os (trace w) of
           None \<Rightarrow> Inr w1
         | Some scm \<Rightarrow>
             (case Start_loop os scm service_list w1 of
                Inl e \<Rightarrow> Inl e
              | Inr w2 \<Rightarrow> Inr (w2\<lparr>trace := trace w2 @ [Call_CloseServiceHandle scm]\<rparr>)))"

subsection \<open>Stop and the destructor\<close>

text \<open>
  \<^verbatim>\<open>
  for (auto &value : service_data_map_ | std::views::values) {
    if (value.registration) {
      UnsubscribeServiceChangeNotificationsWrapper(value.registration);
      value.registration = nullptr;
    }
  }
  \<close>
\<close>

fun Stop_loop :: "os \<Rightarrow> registry \<Rightarrow> os_call list \<Rightarrow> registry \<times> os_call list" where
  "Stop_loop os [] h = ([], h)"
| "Stop_loop os ((key, v) # rest) h =
     (case registration v of
        None \<Rightarrow>
          (case Stop_loop os rest h of (rest', h') \<Rightarrow> ((key, v) # rest', h'))
      | Some r \<Rightarrow>
          (case Stop_loop os rest (UnsubscribeServiceChangeNotificationsWrapper os r h) of
             (rest', h') \<Rightarrow> ((key, v\<lparr>registration := None\<rparr>) # rest', h')))"

definition Stop :: "os \<Rightarrow> world \<Rightarrow> world" where
  "Stop os w =
     (case Stop_loop os (service_data_map (obj w)) (trace w) of
        (m, h) \<Rightarrow> \<lparr>obj = (obj w)\<lparr>service_data_map := m\<rparr>, trace = h\<rparr>)"

text \<open>
  \<^verbatim>\<open>~ServiceStatusChangedNotifier() { Stop(); }\<close>: the body runs \<^verbatim>\<open>Stop\<close>, then
  the members are destroyed.  The result is the world in which the members are
  destroyed.
\<close>

definition destructor :: "os \<Rightarrow> world \<Rightarrow> world" where
  "destructor os w = Stop os w"

section \<open>Reading a trace\<close>

fun cancelled :: "os_call list \<Rightarrow> PSC_NOTIFICATION_REGISTRATION list" where
  "cancelled [] = []"
| "cancelled (Call_Unsubscribe r # cs) = r # cancelled cs"
| "cancelled (c # cs) = cancelled cs"

text \<open>The handles of the entries that hold a registration, in map order.\<close>

fun live_handles :: "registry \<Rightarrow> PSC_NOTIFICATION_REGISTRATION list" where
  "live_handles [] = []"
| "live_handles ((key, v) # rest) =
     (case registration v of None \<Rightarrow> live_handles rest | Some r \<Rightarrow> r # live_handles rest)"

text \<open>
  The processing steps of \<^verbatim>\<open>Start\<close> in a trace: a service was opened under a
  name, or an entry's notification buffer was submitted to the subscribe primitive.
\<close>

datatype processing = Opened wstring | Submitted address

fun processing_steps :: "os_call list \<Rightarrow> processing list" where
  "processing_steps [] = []"
| "processing_steps (Call_OpenService scm n # cs) = Opened n # processing_steps cs"
| "processing_steps (Call_Subscribe s e a # cs) = Submitted a # processing_steps cs"
| "processing_steps (c # cs) = processing_steps cs"

fun is_Opened :: "processing \<Rightarrow> bool" where
  "is_Opened (Opened n) = True"
| "is_Opened (Submitted a) = False"

text \<open>
  The name buffer holds every name of the list that the system opens: a name longer
  than \<^verbatim>\<open>MAX_PATH + 1\<close> characters is never opened.
\<close>

definition opened_names_fit :: "os \<Rightarrow> wstring list \<Rightarrow> bool" where
  "opened_names_fit os service_list =
     (\<forall>n \<in> set service_list. MAX_PATH os + 1 < length n \<longrightarrow>
        (\<forall>h scm. OpenService os h scm (c_str n) = None))"

fun is_LoadLibrary :: "os_call \<Rightarrow> bool" where
  "is_LoadLibrary (Call_LoadLibrary n) = True"
| "is_LoadLibrary c = False"

text \<open>
  The order in which \<^verbatim>\<open>Start\<close> can process a list of names at most: for each name
  in turn, the service is opened and then the entry's buffer is submitted.
\<close>

definition alternation :: "wstring list \<Rightarrow> processing list" where
  "alternation names =
     concat (map (\<lambda>n. [Opened (c_str n), Submitted (Addr_notify_buffer n)]) names)"

text \<open>A registry with every registration handle set to null, all else unchanged.\<close>

definition cleared :: "registry \<Rightarrow> registry" where
  "cleared m = map (\<lambda>(k, v). (k, v\<lparr>registration := None\<rparr>)) m"

text \<open>
  The library loads and exports the unsubscribe primitive, whenever it is asked.
\<close>

definition library_ready :: "os \<Rightarrow> bool" where
  "library_ready os =
     (\<forall>h. LoadLibrary os h ''SecHost.dll'' \<noteq> None \<and>
          (\<forall>dll. GetProcAddress os h dll ''UnsubscribeServiceChangeNotifications''))"

text \<open>
  At the moment \<open>h\<close> the library loads and exports the symbol: what a wrapper that
  starts at \<open>h\<close> finds.
\<close>

definition library_exports :: "os \<Rightarrow> os_call list \<Rightarrow> string \<Rightarrow> bool" where
  "library_exports os h symbol =
     (case LoadLibrary os h ''SecHost.dll'' of
        None \<Rightarrow> False
      | Some dll \<Rightarrow> GetProcAddress os (h @ [Call_LoadLibrary ''SecHost.dll'']) dll symbol)"

text \<open>
  The handles the unsubscribe primitive is to be asked to cancel when \<^verbatim>\<open>Stop\<close>
  starts at the moment \<open>h\<close> with the given live handles: each handle, in iteration
  order, for which the library loads and exports the primitive at the moment its
  turn comes.  The turn of the next handle comes at the trace the wrapper leaves.
\<close>

fun asked_to_cancel ::
  "os \<Rightarrow> PSC_NOTIFICATION_REGISTRATION list \<Rightarrow> os_call list \<Rightarrow>
     PSC_NOTIFICATION_REGISTRATION list" where
  "asked_to_cancel os [] h = []"
| "asked_to_cancel os (r # rs) h =
     (if library_exports os h ''UnsubscribeServiceChangeNotifications'' then [r] else []) @
     asked_to_cancel os rs (UnsubscribeServiceChangeNotificationsWrapper os r h)"



text \<open>
  The processing steps of one name at the moment \<open>h\<close>: the service is opened under
  the name, and the entry's buffer is submitted exactly when the service opens and
  the library then loads and exports the subscribe primitive.  The steps of a list:
  those of each name in the order of the list, the next name at the trace that the
  processing of this one leaves.
\<close>

definition service_steps :: "os \<Rightarrow> SC_HANDLE \<Rightarrow> wstring \<Rightarrow> os_call list \<Rightarrow> processing list" where
  "service_steps os scm n h =
     Opened (c_str n) #
     (case OpenService os h scm (c_str n) of
        None \<Rightarrow> []
      | Some s \<Rightarrow>
          if library_exports os (h @ [Call_OpenService scm (c_str n)])
               ''SubscribeServiceChangeNotifications''
          then [Submitted (Addr_notify_buffer n)]
          else [])"

fun steps_in_order :: "os \<Rightarrow> SC_HANDLE \<Rightarrow> wstring list \<Rightarrow> world \<Rightarrow> processing list" where
  "steps_in_order os scm [] w = []"
| "steps_in_order os scm (n # ns) w =
     service_steps os scm n (trace w) @
     (case Start_service os scm n w of
        Inl f \<Rightarrow> []
      | Inr w' \<Rightarrow> steps_in_order os scm ns w')"

text \<open>
  The one input on which the guard of the callback passes although the action
  function is empty: zero flags, with a context that resolves.
\<close>

definition zero_flags_on_empty_action :: "DWORD \<Rightarrow> SERVICE_NOTIFY_pointee option \<Rightarrow> bool" where
  "zero_flags_on_empty_action dwNotify pCallbackContext =
     (dwNotify = 0 \<and>
      (case pCallbackContext of
         None \<Rightarrow> False
       | Some nb \<Rightarrow>
           (case pContext_pointee nb of
              None \<Rightarrow> False
            | Some c \<Rightarrow> action_function c = None)))"

text \<open>
  What a pointer into the registry refers to when the system hands it to the
  callback.  \<^verbatim>\<open>Start\<close> submits the address of an entry's notification buffer; the
  buffer points to the \<^verbatim>\<open>context_\<close> member and to the entry's name buffer, which is
  read as a C string.  Only the addresses that \<^verbatim>\<open>Start\<close> stores are resolved; any
  other is read as a null pointer.  A name that fills its buffer to the last
  character leaves no terminator; the string is then read to the end of the buffer.
\<close>

definition pointee :: "notifier \<Rightarrow> address option \<Rightarrow> SERVICE_NOTIFY_pointee option" where
  "pointee n p =
     (case p of
        Some (Addr_notify_buffer key) \<Rightarrow>
          (case map_of (service_data_map n) key of
             None \<Rightarrow> None
           | Some d \<Rightarrow>
               Some \<lparr>pContext_pointee =
                       (case pContext (notify_buffer d) of
                          Some Addr_context \<Rightarrow> Some (context_field n)
                        | _ \<Rightarrow> None),
                     pszServiceNames_pointee =
                       (case pszServiceNames (notify_buffer d) of
                          Some (Addr_service_name k) \<Rightarrow>
                            (case map_of (service_data_map n) k of
                               None \<Rightarrow> []
                             | Some d' \<Rightarrow> c_str (service_name d'))
                        | _ \<Rightarrow> [])\<rparr>)
      | _ \<Rightarrow> None)"

section \<open>Sample inputs\<close>

text \<open>
  A system that opens the services Alpha and Gamma and no other, loads the library
  and registers every subscription, with a hash table that links a new entry first;
  and variants of it that fail at one point.  In \<open>late_failure_os\<close> the library
  loads until Alpha is subscribed and not afterwards.  In \<open>first_turn_failure_os\<close>
  the library does not load right after the manager was closed, and loads at every
  other moment.
\<close>

definition sample_os :: os where
  "sample_os =
     \<lparr>OpenSCManager = (\<lambda>h. Some 1),
      OpenService = (\<lambda>h scm n. if n = ''Alpha'' \<or> n = ''Gamma'' then Some (length h) else None),
      LoadLibrary = (\<lambda>h n. Some 3),
      GetLastError = (\<lambda>h. 126),
      GetProcAddress = (\<lambda>h dll s. True),
      SubscribeServiceChangeNotifications = (\<lambda>h s e a. (0, Some (length h))),
      MAX_PATH = 260,
      ERROR_SUCCESS = 0,
      bucket_position = (\<lambda>key keys. 0)\<rparr>"

definition no_manager_os :: os where
  "no_manager_os = sample_os\<lparr>OpenSCManager := (\<lambda>h. None)\<rparr>"

definition no_library_os :: os where
  "no_library_os = sample_os\<lparr>LoadLibrary := (\<lambda>h n. None)\<rparr>"

definition no_symbol_os :: os where
  "no_symbol_os = sample_os\<lparr>GetProcAddress := (\<lambda>h dll s. False)\<rparr>"

definition late_failure_os :: os where
  "late_failure_os =
     sample_os\<lparr>LoadLibrary :=
       (\<lambda>h n. if Submitted (Addr_notify_buffer ''Alpha'') \<in> set (processing_steps h)
              then None else Some 3)\<rparr>"

definition first_turn_failure_os :: os where
  "first_turn_failure_os =
     sample_os\<lparr>LoadLibrary :=
       (\<lambda>h n. if h \<noteq> [] \<and> last h = Call_CloseServiceHandle 1 then None else Some 3)\<rparr>"

text \<open>
  A newly constructed registry, the world after one \<^verbatim>\<open>Start\<close> on it, and the world
  after a second \<^verbatim>\<open>Start\<close> with the same list.
\<close>

definition fresh :: world where
  "fresh =
     \<lparr>obj = \<lparr>service_data_map = [],
             context_field = \<lparr>notify_mask = 0, action_function = None\<rparr>\<rparr>,
      trace = []\<rparr>"

definition started :: "os \<Rightarrow> wstring list \<Rightarrow> world" where
  "started os service_list =
     (case Start os service_list 1 None fresh of Inl f \<Rightarrow> fresh | Inr w \<Rightarrow> w)"

definition restarted :: "os \<Rightarrow> wstring list \<Rightarrow> world" where
  "restarted os service_list =
     (case Start os service_list 1 None (started os service_list) of
        Inl f \<Rightarrow> fresh
      | Inr w \<Rightarrow> w)"

text \<open>
  A name of 306 characters whose C string is Alpha: the system opens it, and it is
  longer than the name buffer of an entry.
\<close>

definition overlong_name :: wstring where
  "overlong_name = ''Alpha'' @ NUL # replicate 300 (CHR ''x'')"

text \<open>
  What the callback's pointer refers to for the entry Alpha under the mask 1
  (\<^verbatim>\<open>SERVICE_NOTIFY_STOPPED\<close>), and two targets: one returns, one throws.
\<close>

definition sample_pointee :: "ActionFunction \<Rightarrow> SERVICE_NOTIFY_pointee" where
  "sample_pointee action =
     \<lparr>pContext_pointee = Some \<lparr>notify_mask = 1, action_function = action\<rparr>,
      pszServiceNames_pointee = ''Alpha''\<rparr>"

definition returning_target :: "wstring \<Rightarrow> DWORD \<Rightarrow> failure option" where
  "returning_target n f = None"

definition throwing_target :: "wstring \<Rightarrow> DWORD \<Rightarrow> failure option" where
  "throwing_target n f = Some action_exception"

section \<open>Traces and registry operations\<close>

lemma cancelled_append: "cancelled (xs @ ys) = cancelled xs @ cancelled ys"
  by (induction xs rule: cancelled.induct) simp_all

lemma processing_steps_append:
  "processing_steps (xs @ ys) = processing_steps xs @ processing_steps ys"
  by (induction xs rule: processing_steps.induct) simp_all

lemma live_handles_none:
  "(live_handles m = []) = (\<forall>(k, v) \<in> set m. registration v = None)"
  by (induction m) (auto split: option.splits)

lemma live_handles_cleared: "live_handles (cleared m) = []"
  by (induction m) (auto simp: cleared_def)

lemma map_of_take_None: "map_of m key = None \<Longrightarrow> map_of (take i m) key = None"
  by (metis append_take_drop_id map_add_None map_of_append)

lemma map_of_insert_at:
  "map_of m key = None \<Longrightarrow>
   map_of (take i m @ (key, d) # drop i m) n = (if n = key then Some d else map_of m n)"
proof -
  assume none: "map_of m key = None"
  have "map_of m n = (map_of (drop i m) ++ map_of (take i m)) n"
    by (metis append_take_drop_id map_of_append)
  with map_of_take_None [OF none, of i] show ?thesis
    by (auto simp: map_add_def split: option.splits)
qed

lemma map_of_subscript:
  "map_of (subscript os key m) n =
     (if n = key \<and> map_of m key = None then Some (default_ServiceData os) else map_of m n)"
proof (cases "map_of m key")
  case None
  from map_of_insert_at [OF None, of "bucket_position os key (map fst m)" "default_ServiceData os" n]
  show ?thesis using None by (simp add: subscript_def)
next
  case (Some d)
  then show ?thesis by (simp add: subscript_def)
qed

lemma map_of_subscript_other:
  "n \<noteq> key \<Longrightarrow> map_of (subscript os key m) n = map_of m n"
  by (simp add: map_of_subscript)


lemma map_of_modify:
  "map_of (modify key f m) n =
     (if n = key then map_option f (map_of m n) else map_of m n)"
  by (induction m) (auto simp: modify_def)


section \<open>Stop\<close>

text \<open>
  One run of the unsubscribe wrapper loads the library once, and it reaches the
  primitive, with the handle it was given, exactly when the library loads and exports
  the primitive at that moment.
\<close>

lemma Unsubscribe_trace:
  "\<exists>ext. UnsubscribeServiceChangeNotificationsWrapper os r h = h @ ext \<and>
         cancelled ext =
           (if library_exports os h ''UnsubscribeServiceChangeNotifications'' then [r] else []) \<and>
         length (filter is_LoadLibrary ext) = 1"
  by (auto simp: UnsubscribeServiceChangeNotificationsWrapper_def ScopedDllHandle_def Let_def
        library_exports_def split: option.splits)

lemma Stop_loop_registry: "fst (Stop_loop os m h) = cleared m"
  by (induction m arbitrary: h) (auto simp: cleared_def case_prod_beta split: option.splits)

lemma Stop_loop_idle: "live_handles m = [] \<Longrightarrow> Stop_loop os m h = (m, h)"
  by (induction m arbitrary: h) (auto split: option.splits)

lemma Stop_loop_trace:
  "\<exists>ext. snd (Stop_loop os m h) = h @ ext \<and>
         cancelled ext = asked_to_cancel os (live_handles m) h \<and>
         length (filter is_LoadLibrary ext) = length (live_handles m)"
proof (induction m arbitrary: h)
  case Nil
  then show ?case by simp
next
  case (Cons a m)
  obtain key v where a: "a = (key, v)" by (cases a)
  show ?case
  proof (cases "registration v")
    case None
    from Cons.IH [of h] show ?thesis
      using a None by (auto simp: case_prod_beta)
  next
    case (Some r)
    obtain e1 where e1: "UnsubscribeServiceChangeNotificationsWrapper os r h = h @ e1"
      "cancelled e1 =
         (if library_exports os h ''UnsubscribeServiceChangeNotifications'' then [r] else [])"
      "length (filter is_LoadLibrary e1) = 1"
      using Unsubscribe_trace [of os r h] by blast
    obtain e2 where e2: "snd (Stop_loop os m (h @ e1)) = (h @ e1) @ e2"
      "cancelled e2 = asked_to_cancel os (live_handles m) (h @ e1)"
      "length (filter is_LoadLibrary e2) = length (live_handles m)"
      using Cons.IH [of "h @ e1"] by blast
    show ?thesis
      using a Some e1 e2
      by (intro exI [of _ "e1 @ e2"]) (simp add: cancelled_append case_prod_beta)
  qed
qed

lemma asked_to_cancel_subseq: "subseq (asked_to_cancel os rs h) rs"
proof (induction rs arbitrary: h)
  case Nil
  show ?case by simp
next
  case (Cons r rs)
  have "subseq ((if library_exports os h ''UnsubscribeServiceChangeNotifications'' then [r] else []) @
           asked_to_cancel os rs (UnsubscribeServiceChangeNotificationsWrapper os r h)) ([r] @ rs)"
    by (rule list_emb_append_mono) (simp_all add: Cons.IH)
  then show ?case by simp
qed

lemma library_ready_exports:
  "library_ready os \<Longrightarrow> library_exports os h ''UnsubscribeServiceChangeNotifications''"
  by (auto simp: library_ready_def library_exports_def split: option.splits)

lemma asked_to_cancel_ready: "library_ready os \<Longrightarrow> asked_to_cancel os rs h = rs"
  by (induction rs arbitrary: h) (simp_all add: library_ready_exports)

lemma Stop_registry: "service_data_map (obj (Stop os w)) = cleared (service_data_map (obj w))"
  using Stop_loop_registry [of os "service_data_map (obj w)" "trace w"]
  by (simp add: Stop_def case_prod_beta)

lemma Stop_idle: "live_handles (service_data_map (obj w)) = [] \<Longrightarrow> Stop os w = w"
  using Stop_loop_idle [of "service_data_map (obj w)" os "trace w"] by (simp add: Stop_def)

lemma Stop_twice: "Stop os' (Stop os w) = Stop os w"
  by (rule Stop_idle) (simp add: Stop_registry live_handles_cleared)

lemma Stop_trace:
  "\<exists>ext. trace (Stop os w) = trace w @ ext \<and>
         length (filter is_LoadLibrary ext) = length (live_handles (service_data_map (obj w))) \<and>
         cancelled ext = asked_to_cancel os (live_handles (service_data_map (obj w))) (trace w)"
proof -
  have t: "trace (Stop os w) = snd (Stop_loop os (service_data_map (obj w)) (trace w))"
    by (simp add: Stop_def case_prod_beta)
  from Stop_loop_trace [of os "service_data_map (obj w)" "trace w"] show ?thesis
    unfolding t by blast
qed

section \<open>Start\<close>

subsection \<open>One service\<close>

lemma service_steps_opened:
  "filter is_Opened (service_steps os scm n h) = [Opened (c_str n)]"
  by (simp add: service_steps_def split: option.splits)

lemma service_steps_subseq:
  "subseq (service_steps os scm n h) [Opened (c_str n), Submitted (Addr_notify_buffer n)]"
  by (simp add: service_steps_def split: option.splits)

lemma Subscribe_trace:
  "SubscribeServiceChangeNotificationsWrapper os s e a h = (rv, reg, h') \<Longrightarrow>
   \<exists>ext. h' = h @ ext \<and> cancelled ext = [] \<and>
         processing_steps ext =
           (if library_exports os h ''SubscribeServiceChangeNotifications''
            then [Submitted a] else [])"
  by (auto simp: SubscribeServiceChangeNotificationsWrapper_def ScopedDllHandle_def Let_def
        library_exports_def split: option.splits if_splits prod.splits)


lemma Start_service_returns:
  assumes "MAX_PATH os + 1 < length name \<longrightarrow> (\<forall>h scm. OpenService os h scm (c_str name) = None)"
  shows "\<exists>w'. Start_service os scm name w = Inr w'"
  using assms
  by (auto simp: Start_service_def Let_def split: option.splits prod.splits)

lemma Start_service_frame:
  assumes "Start_service os scm name w = Inr w'" and "n \<noteq> name"
  shows "map_of (service_data_map (obj w')) n = map_of (service_data_map (obj w)) n"
  using assms
  by (auto simp: Start_service_def Let_def map_of_modify map_of_subscript_other
        split: option.splits prod.splits if_splits)




lemma Start_service_trace:
  assumes "Start_service os scm name w = Inr w'"
  shows "\<exists>ext. trace w' = trace w @ ext \<and> cancelled ext = [] \<and>
           processing_steps ext = service_steps os scm name (trace w)"
proof (cases "OpenService os (trace w) scm (c_str name)")
  case None
  with assms have "trace w' = trace w @ [Call_OpenService scm (c_str name)]"
    by (auto simp: Start_service_def Let_def)
  with None show ?thesis by (simp add: service_steps_def)
next
  case (Some service)
  obtain rv reg h2 where W: "SubscribeServiceChangeNotificationsWrapper os service
      SC_EVENT_STATUS_CHANGE (Addr_notify_buffer name)
      (trace w @ [Call_OpenService scm (c_str name)]) = (rv, reg, h2)"
    by (metis prod_cases3)
  from Subscribe_trace [OF W] obtain e where e:
    "h2 = (trace w @ [Call_OpenService scm (c_str name)]) @ e" "cancelled e = []"
    "processing_steps e =
       (if library_exports os (trace w @ [Call_OpenService scm (c_str name)])
             ''SubscribeServiceChangeNotifications''
        then [Submitted (Addr_notify_buffer name)] else [])"
    by blast
  from assms Some W have "trace w' = h2 @ [Call_CloseServiceHandle service]"
    by (auto simp: Start_service_def Let_def split: if_splits)
  with e Some show ?thesis
    by (intro exI [of _ "Call_OpenService scm (c_str name) # e @ [Call_CloseServiceHandle service]"])
       (simp add: cancelled_append processing_steps_append service_steps_def)
qed



subsection \<open>The loop over the names\<close>

lemma opened_names_fit_Cons:
  "opened_names_fit os (name # rest) =
     ((MAX_PATH os + 1 < length name \<longrightarrow> (\<forall>h scm. OpenService os h scm (c_str name) = None)) \<and>
      opened_names_fit os rest)"
  by (simp add: opened_names_fit_def)

lemma Start_loop_returns:
  "opened_names_fit os names \<Longrightarrow> \<exists>w'. Start_loop os scm names w = Inr w'"
proof (induction names arbitrary: w)
  case Nil
  show ?case by simp
next
  case (Cons name rest)
  from Cons.prems have fit: "opened_names_fit os rest"
    and here: "MAX_PATH os + 1 < length name \<longrightarrow> (\<forall>h scm. OpenService os h scm (c_str name) = None)"
    by (simp_all add: opened_names_fit_Cons)
  from Start_service_returns [OF here] obtain w1 where "Start_service os scm name w = Inr w1"
    by blast
  moreover from Cons.IH [OF fit] obtain w2 where "Start_loop os scm rest w1 = Inr w2"
    by blast
  ultimately show ?case by simp
qed

lemma Start_loop_frame:
  "Start_loop os scm names w = Inr w' \<Longrightarrow> n \<notin> set names \<Longrightarrow>
   map_of (service_data_map (obj w')) n = map_of (service_data_map (obj w)) n"
proof (induction names arbitrary: w)
  case Nil
  then show ?case by simp
next
  case (Cons name rest)
  then obtain w1 where 1: "Start_service os scm name w = Inr w1"
    and 2: "Start_loop os scm rest w1 = Inr w'"
    by (auto split: sum.splits)
  from Cons.prems have "n \<noteq> name" "n \<notin> set rest" by auto
  then show ?case
    using Cons.IH [OF 2] Start_service_frame [OF 1] by simp
qed


lemma Start_loop_trace:
  "Start_loop os scm names w = Inr w' \<Longrightarrow>
   \<exists>ext. trace w' = trace w @ ext \<and> cancelled ext = [] \<and>
         processing_steps ext = steps_in_order os scm names w"
proof (induction names arbitrary: w)
  case Nil
  then show ?case by simp
next
  case (Cons name rest)
  then obtain w1 where 1: "Start_service os scm name w = Inr w1"
    and 2: "Start_loop os scm rest w1 = Inr w'"
    by (auto split: sum.splits)
  from Start_service_trace [OF 1] obtain e1 where e1:
    "trace w1 = trace w @ e1" "cancelled e1 = []"
    "processing_steps e1 = service_steps os scm name (trace w)"
    by blast
  from Cons.IH [OF 2] obtain e2 where e2:
    "trace w' = trace w1 @ e2" "cancelled e2 = []"
    "processing_steps e2 = steps_in_order os scm rest w1"
    by blast
  from e1 e2 1 show ?case
    by (intro exI [of _ "e1 @ e2"]) (simp add: cancelled_append processing_steps_append)
qed


lemma steps_in_order_opened:
  "Start_loop os scm names w = Inr w' \<Longrightarrow>
   filter is_Opened (steps_in_order os scm names w) = map (\<lambda>n. Opened (c_str n)) names"
proof (induction names arbitrary: w)
  case Nil
  then show ?case by simp
next
  case (Cons name rest)
  then obtain w1 where 1: "Start_service os scm name w = Inr w1"
    and 2: "Start_loop os scm rest w1 = Inr w'"
    by (auto split: sum.splits)
  from Cons.IH [OF 2] 1 show ?case by (simp add: service_steps_opened)
qed

lemma steps_in_order_subseq:
  "Start_loop os scm names w = Inr w' \<Longrightarrow>
   subseq (steps_in_order os scm names w) (alternation names)"
proof (induction names arbitrary: w)
  case Nil
  then show ?case by (simp add: alternation_def)
next
  case (Cons name rest)
  then obtain w1 where 1: "Start_service os scm name w = Inr w1"
    and 2: "Start_loop os scm rest w1 = Inr w'"
    by (auto split: sum.splits)
  have "subseq (service_steps os scm name (trace w) @ steps_in_order os scm rest w1)
          ([Opened (c_str name), Submitted (Addr_notify_buffer name)] @ alternation rest)"
    using service_steps_subseq Cons.IH [OF 2] by (rule list_emb_append_mono)
  with 1 show ?case by (simp add: alternation_def)
qed



subsection \<open>The whole call\<close>

lemma Start_Inr:
  assumes "opened_names_fit os service_list"
  shows "\<exists>w'. Start os service_list mask_arg action w = Inr w'"
proof (cases "OpenSCManager os (trace w)")
  case None
  then show ?thesis by (simp add: Start_def)
next
  case (Some scm)
  from Start_loop_returns [OF assms] obtain w2 where
    "Start_loop os scm service_list
       \<lparr>obj = (obj w)\<lparr>context_field := \<lparr>notify_mask = mask_arg, action_function = action\<rparr>\<rparr>,
        trace = trace w @ [Call_OpenSCManager]\<rparr> = Inr w2"
    by blast
  with Some show ?thesis by (simp add: Start_def)
qed

lemma Start_cases:
  assumes "Start os service_list mask_arg action w = Inr w'"
  obtains (no_manager) "OpenSCManager os (trace w) = None"
      "w' = \<lparr>obj = (obj w)\<lparr>context_field := \<lparr>notify_mask = mask_arg, action_function = action\<rparr>\<rparr>,
             trace = trace w @ [Call_OpenSCManager]\<rparr>"
    | (manager) scm w2 where "OpenSCManager os (trace w) = Some scm"
      "Start_loop os scm service_list
         \<lparr>obj = (obj w)\<lparr>context_field := \<lparr>notify_mask = mask_arg, action_function = action\<rparr>\<rparr>,
          trace = trace w @ [Call_OpenSCManager]\<rparr> = Inr w2"
      "w' = w2\<lparr>trace := trace w2 @ [Call_CloseServiceHandle scm]\<rparr>"
  using assms by (auto simp: Start_def Let_def split: option.splits sum.splits)

lemma Start_trace:
  assumes "Start os service_list mask_arg action w = Inr w'"
  shows "\<exists>ext. trace w' = trace w @ ext \<and> cancelled ext = [] \<and>
           (OpenSCManager os (trace w) = None \<longrightarrow> processing_steps ext = []) \<and>
           (\<forall>scm. OpenSCManager os (trace w) = Some scm \<longrightarrow>
              processing_steps ext =
                steps_in_order os scm service_list
                  \<lparr>obj = (obj w)\<lparr>context_field :=
                           \<lparr>notify_mask = mask_arg, action_function = action\<rparr>\<rparr>,
                   trace = trace w @ [Call_OpenSCManager]\<rparr> \<and>
              filter is_Opened (processing_steps ext) = map (\<lambda>n. Opened (c_str n)) service_list \<and>
              subseq (processing_steps ext) (alternation service_list))"
  using assms
proof (cases rule: Start_cases)
  case no_manager
  then show ?thesis by simp
next
  case (manager scm w2)
  from Start_loop_trace [OF manager(2)] obtain e where e:
    "trace w2 = (trace w @ [Call_OpenSCManager]) @ e" "cancelled e = []"
    "processing_steps e =
       steps_in_order os scm service_list
         \<lparr>obj = (obj w)\<lparr>context_field := \<lparr>notify_mask = mask_arg, action_function = action\<rparr>\<rparr>,
          trace = trace w @ [Call_OpenSCManager]\<rparr>"
    by auto
  with manager(1) manager(3) steps_in_order_opened [OF manager(2)]
    steps_in_order_subseq [OF manager(2)]
  show ?thesis
    by (intro exI [of _ "Call_OpenSCManager # e @ [Call_CloseServiceHandle scm]"])
       (simp add: cancelled_append processing_steps_append)
qed

lemma Start_frame:
  assumes "Start os service_list mask_arg action w = Inr w'" and "n \<notin> set service_list"
  shows "map_of (service_data_map (obj w')) n = map_of (service_data_map (obj w)) n"
  using assms(1)
proof (cases rule: Start_cases)
  case no_manager
  then show ?thesis by simp
next
  case (manager scm w2)
  from Start_loop_frame [OF manager(2) assms(2)] manager(3) show ?thesis by simp
qed




section \<open>Runs on the sample inputs\<close>

lemmas sample_defs = sample_os_def no_manager_os_def no_library_os_def no_symbol_os_def
  late_failure_os_def first_turn_failure_os_def fresh_def started_def restarted_def
  overlong_name_def

lemmas run_defs = Start_def Start_service_def Stop_def
  SubscribeServiceChangeNotificationsWrapper_def UnsubscribeServiceChangeNotificationsWrapper_def
  ScopedDllHandle_def subscript_def modify_def default_ServiceData_def c_str_def NUL_def Let_def

lemma live_alpha:
  "live_handles (service_data_map (obj (started sample_os [''Alpha'']))) = [4]"
  by (simp add: sample_defs run_defs)

lemma live_three:
  "live_handles (service_data_map (obj (started sample_os [''Alpha'', ''Beta'', ''Gamma''])))
     = [11, 4]"
  by (simp add: sample_defs run_defs)

lemma live_three_first_turn:
  "live_handles (service_data_map
     (obj (started first_turn_failure_os [''Alpha'', ''Beta'', ''Gamma'']))) = [11, 4]"
  by (simp add: sample_defs run_defs)

lemma asked_three_first_turn:
  "asked_to_cancel first_turn_failure_os [11, 4]
     (trace (started first_turn_failure_os [''Alpha'', ''Beta'', ''Gamma''])) = [4]"
  by (simp add: sample_defs run_defs library_exports_def)

lemma overlong_name_does_not_fit:
  "\<not> opened_names_fit sample_os [overlong_name]"
  by (simp add: opened_names_fit_def sample_os_def overlong_name_def c_str_def NUL_def)


section \<open>The notification dispatcher\<close>

text \<open>
  The callback reaches its call expression exactly when its guard holds.  The guard
  and the predicate of the specification agree on every input but one: zero flags
  with an empty action function.
\<close>

lemma NotifyCallbackFunc_guard:
  assumes "pContext_pointee nb = Some c"
  shows "call_attempted (NotifyCallbackFunc F (Some nb)) =
           ((action_function c \<noteq> None \<and> (F OR notify_mask c) = notify_mask c) \<or> F = 0)"
  using assms by (cases "action_function c") (auto simp: NotifyCallbackFunc_def)

lemma NotifyCallbackFunc_guard_and_spec:
  assumes "pContext_pointee nb = Some c"
  shows "(call_attempted (NotifyCallbackFunc F (Some nb)) =
            dispatch_predicate_spec (action_function c) F (notify_mask c)) =
         (\<not> (action_function c = None \<and> F = 0))"
  using assms
  by (cases "action_function c") (auto simp: NotifyCallbackFunc_def dispatch_predicate_spec_def)

lemma NotifyCallbackFunc_arguments:
  assumes "NotifyCallbackFunc F p = Invoked n f r"
  shows "f = F \<and> (\<exists>nb. p = Some nb \<and> n = pszServiceNames_pointee nb)"
  using assms
  by (auto simp: NotifyCallbackFunc_def split: option.splits if_splits
        elim: call_operator.elims)

lemma pointee_after_Start:
  "pointee (obj (started sample_os [''Alpha''])) (Some (Addr_notify_buffer ''Alpha'')) =
     Some (sample_pointee None)"
  by (simp add: pointee_def sample_pointee_def sample_defs run_defs)

text \<open>
  C1.  The callback is to invoke the action callback exactly when the action callback
  is present and the raw flags are zero or a bitwise subset of the filter mask.  With
  zero flags and an empty action function the guard of the code passes, because
  \<^verbatim>\<open>&&\<close> binds tighter than \<^verbatim>\<open>||\<close>: the callback reaches its call expression and
  applies the call operator to the empty function object, where the predicate of the
  specification is false.  The input is the one the system delivers with zero flags
  after \<^verbatim>\<open>Start\<close> was given the service Alpha, the mask 1 and an empty action.
\<close>

theorem NotifyCallbackFunc_calls_empty_action:
  "NotifyCallbackFunc 0
     (pointee (obj (started sample_os [''Alpha''])) (Some (Addr_notify_buffer ''Alpha''))) =
     Called_empty \<and>
   NotifyCallbackFunc 0 (Some (sample_pointee None)) = Called_empty \<and>
   call_attempted (NotifyCallbackFunc 0 (Some (sample_pointee None))) \<and>
   \<not> dispatch_predicate_spec None 0 1"
  by (simp add: pointee_after_Start)
     (simp add: NotifyCallbackFunc_def dispatch_predicate_spec_def sample_pointee_def)

text \<open>
  C3, as stated, fails: the callback has no handler around its call, so a failure
  thrown by the action callback leaves the callback.  Here the flags equal the mask
  and the target throws.
\<close>

theorem NotifyCallbackFunc_lets_failure_escape:
  "escaped (NotifyCallbackFunc 1 (Some (sample_pointee (Some throwing_target))))
     = Some action_exception"
  by (simp add: NotifyCallbackFunc_def sample_pointee_def throwing_target_def)

text \<open>
  C3, amended.  On every input other than zero flags with an empty action function,
  the callback never applies the call operator to an empty function object, and a
  failure leaves it exactly when the action callback is present, the flags are zero
  or a bitwise subset of the mask, and the callback, called with the service name and
  the flags, throws that failure: the callback adds no failure of its own and
  contains none of the action callback's.
\<close>

theorem NotifyCallbackFunc_own_failures:
  assumes "\<not> zero_flags_on_empty_action dwNotify pCallbackContext"
  shows "NotifyCallbackFunc dwNotify pCallbackContext \<noteq> Called_empty \<and>
         (\<forall>e. (escaped (NotifyCallbackFunc dwNotify pCallbackContext) = Some e) =
              (\<exists>nb c target.
                 pCallbackContext = Some nb \<and>
                 pContext_pointee nb = Some c \<and>
                 action_function c = Some target \<and>
                 (dwNotify OR notify_mask c) = notify_mask c \<and>
                 target (pszServiceNames_pointee nb) dwNotify = Some e))"
  using assms
  by (auto simp: NotifyCallbackFunc_def zero_flags_on_empty_action_def
        split: option.splits if_splits)

theorem NotifyCallbackFunc_own_failures_witness:
  "\<not> zero_flags_on_empty_action 3 (Some (sample_pointee None)) \<and>
   NotifyCallbackFunc 3 (Some (sample_pointee None)) \<noteq> Called_empty \<and>
   \<not> zero_flags_on_empty_action 0 (Some (sample_pointee (Some throwing_target))) \<and>
   escaped (NotifyCallbackFunc 0 (Some (sample_pointee (Some throwing_target)))) =
     Some action_exception \<and>
   \<not> zero_flags_on_empty_action 3 (Some (sample_pointee (Some throwing_target))) \<and>
   escaped (NotifyCallbackFunc 3 (Some (sample_pointee (Some throwing_target)))) \<noteq>
     Some action_exception"
  using NotifyCallbackFunc_own_failures [of 3 "Some (sample_pointee None)"]
    NotifyCallbackFunc_own_failures [of 0 "Some (sample_pointee (Some throwing_target))"]
    NotifyCallbackFunc_own_failures [of 3 "Some (sample_pointee (Some throwing_target))"]
  by (simp add: zero_flags_on_empty_action_def sample_pointee_def throwing_target_def)

section \<open>The library wrapper\<close>

text \<open>
  C7.  The subscribe wrapper returns the last error code and a null registration
  handle when the library cannot be loaded; zero and a null handle when the library
  loads and the symbol cannot be resolved; and otherwise the status and the
  registration handle of the underlying primitive.
\<close>

theorem SubscribeServiceChangeNotificationsWrapper_results:
  "(LoadLibrary os h ''SecHost.dll'' = None \<longrightarrow>
      (\<exists>h'. SubscribeServiceChangeNotificationsWrapper os hService eEventType pCallbackContext h =
             (GetLastError os (h @ [Call_LoadLibrary ''SecHost.dll'']), None, h'))) \<and>
   (\<forall>dll. LoadLibrary os h ''SecHost.dll'' = Some dll \<longrightarrow>
      \<not> GetProcAddress os (h @ [Call_LoadLibrary ''SecHost.dll'']) dll
          ''SubscribeServiceChangeNotifications'' \<longrightarrow>
      (\<exists>h'. SubscribeServiceChangeNotificationsWrapper os hService eEventType pCallbackContext h =
             (0, None, h'))) \<and>
   (\<forall>dll. LoadLibrary os h ''SecHost.dll'' = Some dll \<longrightarrow>
      GetProcAddress os (h @ [Call_LoadLibrary ''SecHost.dll'']) dll
        ''SubscribeServiceChangeNotifications'' \<longrightarrow>
      (\<exists>h'. SubscribeServiceChangeNotificationsWrapper os hService eEventType pCallbackContext h =
             (fst (SubscribeServiceChangeNotifications os
                    (h @ [Call_LoadLibrary ''SecHost.dll'',
                          Call_GetProcAddress dll ''SubscribeServiceChangeNotifications''])
                    hService eEventType pCallbackContext),
              snd (SubscribeServiceChangeNotifications os
                    (h @ [Call_LoadLibrary ''SecHost.dll'',
                          Call_GetProcAddress dll ''SubscribeServiceChangeNotifications''])
                    hService eEventType pCallbackContext),
              h')))"
  by (simp add: SubscribeServiceChangeNotificationsWrapper_def ScopedDllHandle_def Let_def
        case_prod_beta)

theorem SubscribeServiceChangeNotificationsWrapper_results_witness:
  "LoadLibrary no_library_os [] ''SecHost.dll'' = None \<and>
   (\<exists>h'. SubscribeServiceChangeNotificationsWrapper no_library_os 2 SC_EVENT_STATUS_CHANGE
            (Addr_notify_buffer ''Alpha'') [] = (126, None, h')) \<and>
   LoadLibrary no_symbol_os [] ''SecHost.dll'' = Some 3 \<and>
   (\<exists>h'. SubscribeServiceChangeNotificationsWrapper no_symbol_os 2 SC_EVENT_STATUS_CHANGE
            (Addr_notify_buffer ''Alpha'') [] = (0, None, h')) \<and>
   LoadLibrary sample_os [] ''SecHost.dll'' = Some 3 \<and>
   (\<exists>h'. SubscribeServiceChangeNotificationsWrapper sample_os 2 SC_EVENT_STATUS_CHANGE
            (Addr_notify_buffer ''Alpha'') [] = (0, Some 2, h'))"
  using SubscribeServiceChangeNotificationsWrapper_results
          [of no_library_os "[]" 2 SC_EVENT_STATUS_CHANGE "Addr_notify_buffer ''Alpha''"]
        SubscribeServiceChangeNotificationsWrapper_results
          [of no_symbol_os "[]" 2 SC_EVENT_STATUS_CHANGE "Addr_notify_buffer ''Alpha''"]
        SubscribeServiceChangeNotificationsWrapper_results
          [of sample_os "[]" 2 SC_EVENT_STATUS_CHANGE "Addr_notify_buffer ''Alpha''"]
  by (simp add: no_library_os_def no_symbol_os_def sample_os_def numeral_2_eq_2)

section \<open>Stop and destruction\<close>

text \<open>
  C2, as stated, fails: the unsubscribe wrapper does nothing when the library does
  not load, and \<^verbatim>\<open>Stop\<close> clears the handle all the same.  Under
  \<open>late_failure_os\<close> the entry Alpha holds the handle 4 after \<^verbatim>\<open>Start\<close>; after
  \<^verbatim>\<open>Stop\<close> no handle is left, and the primitive was never asked to cancel one.
\<close>

theorem Stop_clears_without_cancel:
  "Start late_failure_os [''Alpha''] 1 None fresh = Inr (started late_failure_os [''Alpha'']) \<and>
   live_handles (service_data_map (obj (started late_failure_os [''Alpha'']))) = [4] \<and>
   live_handles (service_data_map
     (obj (Stop late_failure_os (started late_failure_os [''Alpha''])))) = [] \<and>
   cancelled (trace (Stop late_failure_os (started late_failure_os [''Alpha'']))) = []"
  by (simp add: sample_defs run_defs)

text \<open>
  C2, amended.  After every call to \<^verbatim>\<open>Stop\<close> every entry's registration handle is
  null and nothing else in the registry has changed.  The unsubscribe wrapper ran once
  for each entry that held a handle.  The underlying primitive was asked to cancel
  exactly those of the handles, in iteration order, for which the library loaded and
  exported the primitive at the moment the wrapper ran for them; the others were set
  to null without a cancel call.  When the library loads and exports the primitive
  whenever asked, these are all the handles that the entries held.
\<close>

theorem Stop_cancels_where_library_exports:
  "service_data_map (obj (Stop os w)) = cleared (service_data_map (obj w)) \<and>
   (\<forall>(key, v) \<in> set (service_data_map (obj (Stop os w))). registration v = None) \<and>
   (\<exists>ext. trace (Stop os w) = trace w @ ext \<and>
      length (filter is_LoadLibrary ext) = length (live_handles (service_data_map (obj w))) \<and>
      cancelled ext =
        asked_to_cancel os (live_handles (service_data_map (obj w))) (trace w)) \<and>
   subseq (asked_to_cancel os (live_handles (service_data_map (obj w))) (trace w))
     (live_handles (service_data_map (obj w))) \<and>
   (library_ready os \<longrightarrow>
      asked_to_cancel os (live_handles (service_data_map (obj w))) (trace w) =
        live_handles (service_data_map (obj w)))"
proof -
  have "live_handles (service_data_map (obj (Stop os w))) = []"
    by (simp add: Stop_registry live_handles_cleared)
  then have "\<forall>(key, v) \<in> set (service_data_map (obj (Stop os w))). registration v = None"
    by (simp add: live_handles_none)
  moreover from Stop_trace [of os w]
  have "\<exists>ext. trace (Stop os w) = trace w @ ext \<and>
      length (filter is_LoadLibrary ext) = length (live_handles (service_data_map (obj w))) \<and>
      cancelled ext =
        asked_to_cancel os (live_handles (service_data_map (obj w))) (trace w)"
    by blast
  ultimately show ?thesis
    using Stop_registry [of os w] asked_to_cancel_subseq asked_to_cancel_ready by blast
qed

theorem Stop_cancels_where_library_exports_witness:
  "library_ready sample_os \<and>
   live_handles (service_data_map (obj (started sample_os [''Alpha'', ''Beta'', ''Gamma'']))) =
     [11, 4] \<and>
   cancelled (drop (length (trace (started sample_os [''Alpha'', ''Beta'', ''Gamma''])))
                (trace (Stop sample_os (started sample_os [''Alpha'', ''Beta'', ''Gamma''])))) =
     [11, 4] \<and>
   live_handles (service_data_map
     (obj (started first_turn_failure_os [''Alpha'', ''Beta'', ''Gamma'']))) = [11, 4] \<and>
   cancelled (drop (length (trace (started first_turn_failure_os [''Alpha'', ''Beta'', ''Gamma''])))
                (trace (Stop first_turn_failure_os
                   (started first_turn_failure_os [''Alpha'', ''Beta'', ''Gamma''])))) = [4]"
proof -
  have r: "library_ready sample_os"
    by (simp add: library_ready_def sample_os_def)
  from Stop_cancels_where_library_exports
         [of sample_os "started sample_os [''Alpha'', ''Beta'', ''Gamma'']"]
  obtain ext where
    "trace (Stop sample_os (started sample_os [''Alpha'', ''Beta'', ''Gamma''])) =
       trace (started sample_os [''Alpha'', ''Beta'', ''Gamma'']) @ ext"
    "cancelled ext =
       asked_to_cancel sample_os
         (live_handles (service_data_map (obj (started sample_os [''Alpha'', ''Beta'', ''Gamma'']))))
         (trace (started sample_os [''Alpha'', ''Beta'', ''Gamma'']))"
    "library_ready sample_os \<longrightarrow>
       asked_to_cancel sample_os
         (live_handles (service_data_map (obj (started sample_os [''Alpha'', ''Beta'', ''Gamma'']))))
         (trace (started sample_os [''Alpha'', ''Beta'', ''Gamma''])) =
       live_handles (service_data_map (obj (started sample_os [''Alpha'', ''Beta'', ''Gamma''])))"
    by blast
  with r live_three
  have 1: "cancelled (drop (length (trace (started sample_os [''Alpha'', ''Beta'', ''Gamma''])))
                (trace (Stop sample_os (started sample_os [''Alpha'', ''Beta'', ''Gamma''])))) =
     [11, 4]"
    by simp
  from Stop_cancels_where_library_exports
         [of first_turn_failure_os "started first_turn_failure_os [''Alpha'', ''Beta'', ''Gamma'']"]
  obtain ext' where
    "trace (Stop first_turn_failure_os
        (started first_turn_failure_os [''Alpha'', ''Beta'', ''Gamma''])) =
       trace (started first_turn_failure_os [''Alpha'', ''Beta'', ''Gamma'']) @ ext'"
    "cancelled ext' =
       asked_to_cancel first_turn_failure_os
         (live_handles (service_data_map
            (obj (started first_turn_failure_os [''Alpha'', ''Beta'', ''Gamma'']))))
         (trace (started first_turn_failure_os [''Alpha'', ''Beta'', ''Gamma'']))"
    by blast
  with live_three_first_turn asked_three_first_turn
  have 2: "cancelled (drop (length (trace (started first_turn_failure_os [''Alpha'', ''Beta'', ''Gamma''])))
                (trace (Stop first_turn_failure_os
                   (started first_turn_failure_os [''Alpha'', ''Beta'', ''Gamma''])))) = [4]"
    by simp
  from r live_three live_three_first_turn 1 2 show ?thesis by blast
qed

text \<open>
  C6.  \<^verbatim>\<open>Stop\<close> is idempotent: when no entry holds a registration handle it changes
  nothing and makes no call to the system, and a second \<^verbatim>\<open>Stop\<close> in a row leaves
  the world as the first left it, so there is no second round of cancel calls.
\<close>

theorem Stop_idempotent:
  "((\<forall>(key, v) \<in> set (service_data_map (obj w)). registration v = None) \<longrightarrow> Stop os w = w) \<and>
   Stop os' (Stop os w) = Stop os w"
  using Stop_idle [of w os] Stop_twice [of os' os w] by (simp add: live_handles_none)

theorem Stop_idempotent_witness:
  "live_handles (service_data_map (obj (started no_library_os [''Alpha'']))) = [] \<and>
   map fst (service_data_map (obj (started no_library_os [''Alpha'']))) = [''Alpha''] \<and>
   Stop sample_os (started no_library_os [''Alpha'']) = started no_library_os [''Alpha''] \<and>
   Stop sample_os (Stop sample_os (started sample_os [''Alpha''])) =
     Stop sample_os (started sample_os [''Alpha''])"
proof -
  have 1: "live_handles (service_data_map (obj (started no_library_os [''Alpha'']))) = []"
    and 2: "map fst (service_data_map (obj (started no_library_os [''Alpha'']))) = [''Alpha'']"
    by (simp_all add: sample_defs run_defs)
  from 1 have "\<forall>(key, v) \<in> set (service_data_map (obj (started no_library_os [''Alpha'']))).
      registration v = None"
    by (simp add: live_handles_none)
  with 1 2 Stop_idempotent [of "started no_library_os [''Alpha'']" sample_os sample_os]
    Stop_idempotent [of "started sample_os [''Alpha'']" sample_os sample_os]
  show ?thesis by blast
qed

text \<open>
  C8, as stated, fails: a registration can outlive the registry.  A second
  \<^verbatim>\<open>Start\<close> with the same name stores a new handle over the old one without
  cancelling it; here the entry Alpha holds 4, then 12, and destruction cancels 12
  only.
\<close>

theorem destructor_leaves_overwritten_handle:
  "live_handles (service_data_map (obj (started sample_os [''Alpha'']))) = [4] \<and>
   Start sample_os [''Alpha''] 1 None (started sample_os [''Alpha'']) =
     Inr (restarted sample_os [''Alpha'']) \<and>
   live_handles (service_data_map (obj (restarted sample_os [''Alpha'']))) = [12] \<and>
   cancelled (trace (destructor sample_os (restarted sample_os [''Alpha'']))) = [12]"
  by (simp add: sample_defs run_defs destructor_def)

text \<open>
  C8, amended.  Destroying the registry without an explicit \<^verbatim>\<open>Stop\<close> cancels
  exactly what an explicit \<^verbatim>\<open>Stop\<close> cancels.  The destructor leaves the world that
  \<^verbatim>\<open>Stop\<close> leaves: the wrapper runs once for each handle an entry holds, the
  primitive is asked to cancel exactly those of them for which the library loads and
  exports the primitive at that moment (all of them when it always does), and no
  entry holds a handle when the members are destroyed.  Destruction after an explicit
  \<^verbatim>\<open>Stop\<close> makes no further call.  A registration whose handle no entry holds any
  more, or whose cancel attempt found no library, outlives the registry.
\<close>

theorem destructor_cancels_what_Stop_cancels:
  "destructor os w = Stop os w \<and>
   (\<exists>ext. trace (destructor os w) = trace w @ ext \<and>
      length (filter is_LoadLibrary ext) = length (live_handles (service_data_map (obj w))) \<and>
      cancelled ext =
        asked_to_cancel os (live_handles (service_data_map (obj w))) (trace w)) \<and>
   (library_ready os \<longrightarrow>
      asked_to_cancel os (live_handles (service_data_map (obj w))) (trace w) =
        live_handles (service_data_map (obj w))) \<and>
   live_handles (service_data_map (obj (destructor os w))) = [] \<and>
   destructor os' (Stop os w) = Stop os w"
  using Stop_trace [of os w] asked_to_cancel_ready [of os]
  by (simp add: destructor_def Stop_twice Stop_registry live_handles_cleared)

theorem destructor_cancels_what_Stop_cancels_witness:
  "library_ready sample_os \<and>
   live_handles (service_data_map (obj (started sample_os [''Alpha'', ''Beta'', ''Gamma'']))) =
     [11, 4] \<and>
   cancelled (drop (length (trace (started sample_os [''Alpha'', ''Beta'', ''Gamma''])))
                (trace (destructor sample_os
                   (started sample_os [''Alpha'', ''Beta'', ''Gamma''])))) = [11, 4]"
proof -
  have r: "library_ready sample_os"
    by (simp add: library_ready_def sample_os_def)
  from destructor_cancels_what_Stop_cancels
         [of sample_os "started sample_os [''Alpha'', ''Beta'', ''Gamma'']"]
  obtain ext where
    "trace (destructor sample_os (started sample_os [''Alpha'', ''Beta'', ''Gamma''])) =
       trace (started sample_os [''Alpha'', ''Beta'', ''Gamma'']) @ ext"
    "cancelled ext =
       asked_to_cancel sample_os
         (live_handles (service_data_map (obj (started sample_os [''Alpha'', ''Beta'', ''Gamma'']))))
         (trace (started sample_os [''Alpha'', ''Beta'', ''Gamma'']))"
    "library_ready sample_os \<longrightarrow>
       asked_to_cancel sample_os
         (live_handles (service_data_map (obj (started sample_os [''Alpha'', ''Beta'', ''Gamma'']))))
         (trace (started sample_os [''Alpha'', ''Beta'', ''Gamma''])) =
       live_handles (service_data_map (obj (started sample_os [''Alpha'', ''Beta'', ''Gamma''])))"
    by blast
  with r live_three show ?thesis by simp
qed

section \<open>Start\<close>

text \<open>
  C5.  When the service control manager cannot be opened, \<^verbatim>\<open>Start\<close> returns
  normally: it has stored the mask and the action, made the one failed call, and
  left the map of entries as it was, with no entry created.
\<close>

theorem Start_without_manager:
  assumes "OpenSCManager os (trace w) = None"
  shows "Start os service_list mask_arg action w =
           Inr \<lparr>obj = (obj w)\<lparr>context_field := \<lparr>notify_mask = mask_arg, action_function = action\<rparr>\<rparr>,
                trace = trace w @ [Call_OpenSCManager]\<rparr>"
  using assms by (simp add: Start_def)

theorem Start_without_manager_witness:
  "OpenSCManager no_manager_os (trace fresh) = None \<and>
   Start no_manager_os [''Alpha'', ''Gamma''] 1 None fresh =
     Inr \<lparr>obj = \<lparr>service_data_map = [],
                 context_field = \<lparr>notify_mask = 1, action_function = None\<rparr>\<rparr>,
          trace = [Call_OpenSCManager]\<rparr>"
proof -
  have "OpenSCManager no_manager_os (trace fresh) = None"
    by (simp add: no_manager_os_def sample_os_def)
  from this Start_without_manager [OF this, of "[''Alpha'', ''Gamma'']" 1 None]
  show ?thesis by (simp add: fresh_def)
qed




text \<open>
  C9, as stated, fails for a list the call cannot finish: after Gamma, the name
  below opens and does not fit the name buffer.
\<close>

theorem Start_overruns_after_first_name:
  "Start sample_os [''Gamma'', overlong_name] 1 None fresh = Inl Buffer_overrun"
  by (simp add: sample_defs run_defs)

text \<open>
  C9, amended.  Within one call to \<^verbatim>\<open>Start\<close>, for every list of names in which no
  name longer than the name buffer is one the system opens, the services are
  processed in the order of the list.  The steps of the call are the steps of each
  name in turn: the service is opened under the name, and the entry's buffer is
  submitted to the subscribe primitive exactly when the service opened and the
  library then loads and exports the primitive.  So the names handed to
  \<^verbatim>\<open>OpenService\<close> are the names of the list in their order, and no buffer is
  submitted out of turn.  A call that cannot open the manager processes none.
\<close>

theorem Start_processing_order:
  assumes "opened_names_fit os service_list"
  shows "\<exists>w' ext. Start os service_list mask_arg action w = Inr w' \<and>
           trace w' = trace w @ ext \<and>
           (OpenSCManager os (trace w) = None \<longrightarrow> processing_steps ext = []) \<and>
           (\<forall>scm. OpenSCManager os (trace w) = Some scm \<longrightarrow>
              processing_steps ext =
                steps_in_order os scm service_list
                  \<lparr>obj = (obj w)\<lparr>context_field :=
                           \<lparr>notify_mask = mask_arg, action_function = action\<rparr>\<rparr>,
                   trace = trace w @ [Call_OpenSCManager]\<rparr> \<and>
              filter is_Opened (processing_steps ext) = map (\<lambda>n. Opened (c_str n)) service_list \<and>
              subseq (processing_steps ext) (alternation service_list))"
proof -
  from Start_Inr [OF assms] obtain w' where S: "Start os service_list mask_arg action w = Inr w'"
    by blast
  from Start_trace [OF S] obtain ext where
    "trace w' = trace w @ ext \<and> cancelled ext = [] \<and>
     (OpenSCManager os (trace w) = None \<longrightarrow> processing_steps ext = []) \<and>
     (\<forall>scm. OpenSCManager os (trace w) = Some scm \<longrightarrow>
        processing_steps ext =
          steps_in_order os scm service_list
            \<lparr>obj = (obj w)\<lparr>context_field :=
                     \<lparr>notify_mask = mask_arg, action_function = action\<rparr>\<rparr>,
             trace = trace w @ [Call_OpenSCManager]\<rparr> \<and>
        filter is_Opened (processing_steps ext) = map (\<lambda>n. Opened (c_str n)) service_list \<and>
        subseq (processing_steps ext) (alternation service_list))"
    ..
  with S show ?thesis
    by (intro exI [of _ w'] exI [of _ ext]) (elim conjE, intro conjI, assumption+)
qed

theorem Start_processing_order_witness:
  "opened_names_fit sample_os [''Gamma'', ''Beta'', ''Alpha''] \<and>
   OpenSCManager sample_os (trace fresh) = Some 1 \<and>
   (\<exists>w' ext. Start sample_os [''Gamma'', ''Beta'', ''Alpha''] 1 None fresh = Inr w' \<and>
      trace w' = trace fresh @ ext \<and>
      processing_steps ext =
        [Opened ''Gamma'', Submitted (Addr_notify_buffer ''Gamma''),
         Opened ''Beta'',
         Opened ''Alpha'', Submitted (Addr_notify_buffer ''Alpha'')])"
proof -
  have fit: "opened_names_fit sample_os [''Gamma'', ''Beta'', ''Alpha'']"
    by (simp add: opened_names_fit_def sample_os_def)
  have scm: "OpenSCManager sample_os (trace fresh) = Some 1"
    by (simp add: sample_os_def)
  have steps: "steps_in_order sample_os 1 [''Gamma'', ''Beta'', ''Alpha'']
      \<lparr>obj = (obj fresh)\<lparr>context_field := \<lparr>notify_mask = 1, action_function = None\<rparr>\<rparr>,
       trace = trace fresh @ [Call_OpenSCManager]\<rparr> =
      [Opened ''Gamma'', Submitted (Addr_notify_buffer ''Gamma''),
       Opened ''Beta'',
       Opened ''Alpha'', Submitted (Addr_notify_buffer ''Alpha'')]"
    by (simp add: service_steps_def library_exports_def sample_defs run_defs)
  from Start_processing_order [OF fit, of 1 None fresh] obtain w' ext where run:
    "Start sample_os [''Gamma'', ''Beta'', ''Alpha''] 1 None fresh = Inr w'"
    "trace w' = trace fresh @ ext"
    and all: "\<forall>scm. OpenSCManager sample_os (trace fresh) = Some scm \<longrightarrow>
      processing_steps ext =
        steps_in_order sample_os scm [''Gamma'', ''Beta'', ''Alpha'']
          \<lparr>obj = (obj fresh)\<lparr>context_field := \<lparr>notify_mask = 1, action_function = None\<rparr>\<rparr>,
           trace = trace fresh @ [Call_OpenSCManager]\<rparr>"
    by blast
  from all scm steps have "processing_steps ext =
      [Opened ''Gamma'', Submitted (Addr_notify_buffer ''Gamma''),
       Opened ''Beta'',
       Opened ''Alpha'', Submitted (Addr_notify_buffer ''Alpha'')]"
    by simp
  with run fit scm show ?thesis by blast
qed

text \<open>
  C10, as stated, fails for a second call that cannot finish: Alpha is registered,
  the list of the second call lacks Alpha, and its one name opens and does not fit
  the name buffer.
\<close>

theorem Start_overruns_in_second_call:
  "live_handles (service_data_map (obj (started sample_os [''Alpha'']))) = [4] \<and>
   ''Alpha'' \<notin> set [overlong_name] \<and>
   Start sample_os [overlong_name] 2 None (started sample_os [''Alpha'']) = Inl Buffer_overrun"
  by (simp add: sample_defs run_defs)

text \<open>
  C10, amended.  A call to \<^verbatim>\<open>Start\<close> in whose list no name longer than the name
  buffer is one the system opens leaves the entry of every name that is absent from
  the list as it was, registration handle included, and asks the system to cancel
  nothing: the cancel calls of the trace are those made before the call.
\<close>

theorem Start_keeps_absent_names:
  assumes "opened_names_fit os service_list" and "name \<notin> set service_list"
  shows "\<exists>w'. Start os service_list mask_arg action w = Inr w' \<and>
           map_of (service_data_map (obj w')) name = map_of (service_data_map (obj w)) name \<and>
           cancelled (trace w') = cancelled (trace w)"
proof -
  from Start_Inr [OF assms(1)] obtain w' where S: "Start os service_list mask_arg action w = Inr w'"
    by blast
  from Start_trace [OF S] obtain ext where "trace w' = trace w @ ext" "cancelled ext = []"
    by blast
  then have "cancelled (trace w') = cancelled (trace w)"
    by (simp add: cancelled_append)
  with S Start_frame [OF S assms(2)] show ?thesis by blast
qed

theorem Start_keeps_absent_names_witness:
  "opened_names_fit sample_os [''Gamma''] \<and> ''Alpha'' \<notin> set [''Gamma''] \<and>
   live_handles (service_data_map (obj (started sample_os [''Alpha'']))) = [4] \<and>
   (\<exists>w'. Start sample_os [''Gamma''] 2 None (started sample_os [''Alpha'']) = Inr w' \<and>
      map_of (service_data_map (obj w')) ''Alpha'' =
        map_of (service_data_map (obj (started sample_os [''Alpha'']))) ''Alpha'' \<and>
      cancelled (trace w') = [])"
proof -
  have fit: "opened_names_fit sample_os [''Gamma'']"
    by (simp add: opened_names_fit_def sample_os_def)
  have absent: "''Alpha'' \<notin> set [''Gamma'']" by simp
  have quiet: "cancelled (trace (started sample_os [''Alpha''])) = []"
    by (simp add: sample_defs run_defs)
  from Start_keeps_absent_names [OF fit absent, of 2 None "started sample_os [''Alpha'']"]
    fit absent quiet live_alpha
  show ?thesis by auto
qed

end
